theory Spec2Isabelle
  imports Main "HOL-Library.Word"
begin

unbundle bit_operations_syntax

section \<open>exceptions.h: the frame, the fault kinds, the invalid-field marker\<close>

type_synonym uint32_t = "32 word"

definition EXCEPTION_HANDLER_FIELD_IS_INVALID :: uint32_t where
  "EXCEPTION_HANDLER_FIELD_IS_INVALID = 0xDEADD0D0"

record CortexExceptionCpuFrameType =
  m_R0 :: uint32_t
  m_R1 :: uint32_t
  m_R2 :: uint32_t
  m_R3 :: uint32_t
  m_R12 :: uint32_t
  m_LR :: uint32_t
  m_PC :: uint32_t
  m_PSR :: uint32_t

datatype exceptionType = Hard_Fault | MemMang_Fault | Bus_Fault | Usage_Fault

section \<open>exceptions.c: the status bits of CFSR\<close>

text \<open>Each mask is written as the source writes it, \<^verbatim>\<open>(1u<<n)\<close>.\<close>

definition SCB_CFSR_DIVBYZERO :: uint32_t where "SCB_CFSR_DIVBYZERO = push_bit 25 1"
definition SCB_CFSR_UNALIGNED :: uint32_t where "SCB_CFSR_UNALIGNED = push_bit 24 1"
definition SCB_CFSR_UNDEFINSTR :: uint32_t where "SCB_CFSR_UNDEFINSTR = push_bit 16 1"

definition SCB_CFSR_BFARVALID :: uint32_t where "SCB_CFSR_BFARVALID = push_bit 15 1"
definition SCB_CFSR_LSPERR :: uint32_t where "SCB_CFSR_LSPERR = push_bit 13 1"
definition SCB_CFSR_STKERR :: uint32_t where "SCB_CFSR_STKERR = push_bit 12 1"
definition SCB_CFSR_UNSTKERR :: uint32_t where "SCB_CFSR_UNSTKERR = push_bit 11 1"
definition SCB_CFSR_IMPRECISERR :: uint32_t where "SCB_CFSR_IMPRECISERR = push_bit 10 1"
definition SCB_CFSR_PRECISERR :: uint32_t where "SCB_CFSR_PRECISERR = push_bit 9 1"
definition SCB_CFSR_IBUSERR :: uint32_t where "SCB_CFSR_IBUSERR = push_bit 8 1"

definition SCB_CFSR_MMARVALID :: uint32_t where "SCB_CFSR_MMARVALID = push_bit 7 1"
definition SCB_CFSR_MLSPERR :: uint32_t where "SCB_CFSR_MLSPERR = push_bit 5 1"
definition SCB_CFSR_MSTKERR :: uint32_t where "SCB_CFSR_MSTKERR = push_bit 4 1"
definition SCB_CFSR_MUNSTKERR :: uint32_t where "SCB_CFSR_MUNSTKERR = push_bit 3 1"
definition SCB_CFSR_DACCVIOL :: uint32_t where "SCB_CFSR_DACCVIOL = push_bit 1 1"
definition SCB_CFSR_IACCVIOL :: uint32_t where "SCB_CFSR_IACCVIOL = push_bit 0 1"

text \<open>The source defines this option, so the preprocessor keeps the branch that traps
  division by zero only.\<close>

definition TRAP_DIVIDE_BY_ZERO_ONLY :: bool where
  "TRAP_DIVIDE_BY_ZERO_ONLY = True"

section \<open>The hardware the C code touches\<close>

text \<open>The registers of the System Control Block that the source names through
  \<^verbatim>\<open>SCB->\<close>. They are volatile: every access is an event on the bus, so the
  machine keeps the sequence of accesses next to the register contents. The text sink
  behind \<^verbatim>\<open>KernelPrintf\<close> records each call as its format string and its
  arguments.\<close>

datatype scb_register = CCR | SHCSR | CFSR | HFSR | MMFAR | BFAR

datatype bus_access = Load scb_register | Store scb_register

type_synonym print_call = "string \<times> uint32_t list"

record machine =
  scb :: "scb_register \<Rightarrow> uint32_t"
  bus :: "bus_access list"
  sink :: "print_call list"

definition load :: "scb_register \<Rightarrow> machine \<Rightarrow> uint32_t \<times> machine" where
  "load r m = (scb m r, m\<lparr>bus := bus m @ [Load r]\<rparr>)"

definition store :: "scb_register \<Rightarrow> uint32_t \<Rightarrow> machine \<Rightarrow> machine" where
  "store r v m = m\<lparr>scb := (scb m)(r := v), bus := bus m @ [Store r]\<rparr>"

text \<open>The compound assignment \<^verbatim>\<open>SCB->R |= v\<close>: one load, one store.\<close>

definition or_assign :: "scb_register \<Rightarrow> uint32_t \<Rightarrow> machine \<Rightarrow> machine" where
  "or_assign r v m = (let (x, m') = load r m in store r (x OR v) m')"

definition KernelPrintf :: "string \<Rightarrow> uint32_t list \<Rightarrow> machine \<Rightarrow> machine" where
  "KernelPrintf fmt args m = m\<lparr>sink := sink m @ [(fmt, args)]\<rparr>"

definition crlf :: string where
  "crlf = [CHR 0x0D, CHR 0x0A]"

definition crlflf :: string where
  "crlflf = [CHR 0x0D, CHR 0x0A, CHR 0x0A]"

text \<open>The enable masks come from the device header \<^verbatim>\<open>stm32f413xx.h\<close>, which is
  not part of the repository. They are taken as parameters, so every result below holds
  for whatever values the header gives them.\<close>

record scb_masks =
  SCB_CCR_UNALIGN_TRP_Msk :: uint32_t
  SCB_CCR_DIV_0_TRP_Msk :: uint32_t
  SCB_SHCSR_USGFAULTENA_Msk :: uint32_t
  SCB_SHCSR_BUSFAULTENA_Msk :: uint32_t
  SCB_SHCSR_MEMFAULTENA_Msk :: uint32_t

section \<open>exceptionsInit\<close>

definition exceptionsInit :: "scb_masks \<Rightarrow> machine \<Rightarrow> machine" where
  "exceptionsInit k m =
     (let m1 = (if \<not> TRAP_DIVIDE_BY_ZERO_ONLY
                then or_assign CCR (SCB_CCR_UNALIGN_TRP_Msk k OR SCB_CCR_DIV_0_TRP_Msk k) m
                else or_assign CCR (SCB_CCR_DIV_0_TRP_Msk k) m)
      in or_assign SHCSR
           (SCB_SHCSR_USGFAULTENA_Msk k OR SCB_SHCSR_BUSFAULTENA_Msk k
              OR SCB_SHCSR_MEMFAULTENA_Msk k) m1)"

section \<open>printExtraInfo\<close>

text \<open>The C condition \<^verbatim>\<open>if (cfsr & MASK)\<close> is true when the conjunction is not
  zero. The switch returns the two locals it may assign, \<^verbatim>\<open>hfsr\<close> and
  \<^verbatim>\<open>faultAdd\<close>, with the machine.\<close>

definition printExtraInfo ::
  "CortexExceptionCpuFrameType \<Rightarrow> exceptionType \<Rightarrow> machine \<Rightarrow> machine" where
  "printExtraInfo aFrame eType m0 =
     (let (cfsr, m1) = load CFSR m0;
          hfsr0 = EXCEPTION_HANDLER_FIELD_IS_INVALID;
          faultAdd0 = EXCEPTION_HANDLER_FIELD_IS_INVALID;
          m2 = KernelPrintf (''**** EXCEPTION OCCURRED ****'' @ crlf) [] m1;
          (hfsr, faultAdd, m3) =
            (case eType of
               Usage_Fault \<Rightarrow>
                 (let ma = KernelPrintf (''Type: Usage Fault'' @ crlf) [] m2;
                      mb = (if cfsr AND SCB_CFSR_DIVBYZERO \<noteq> 0
                              then KernelPrintf (''Reason: Division by zero'' @ crlflf) [] ma
                            else if cfsr AND SCB_CFSR_UNALIGNED \<noteq> 0
                              then KernelPrintf (''Reason: Misaligned data access'' @ crlflf) [] ma
                            else if cfsr AND SCB_CFSR_UNDEFINSTR \<noteq> 0
                              then KernelPrintf (''Reason: Undefined instruction'' @ crlflf) [] ma
                            else KernelPrintf (''Reason: Unknown'' @ crlflf) [] ma)
                  in (hfsr0, faultAdd0, mb))
             | Bus_Fault \<Rightarrow>
                 (let ma = KernelPrintf (''Type: Bus Fault'' @ crlf) [] m2;
                      mb = (if cfsr AND SCB_CFSR_IBUSERR \<noteq> 0
                              then KernelPrintf (''Reason: Invalid code address'' @ crlflf) [] ma
                            else if cfsr AND (SCB_CFSR_PRECISERR OR SCB_CFSR_IMPRECISERR) \<noteq> 0
                              then KernelPrintf (''Reason: Invalid data address'' @ crlflf) [] ma
                            else if cfsr AND (SCB_CFSR_STKERR OR SCB_CFSR_UNSTKERR) \<noteq> 0
                              then KernelPrintf (''Reason: Exception stack fault'' @ crlflf) [] ma
                            else if cfsr AND SCB_CFSR_LSPERR \<noteq> 0
                              then KernelPrintf (''Reason: Floating point fault'' @ crlflf) [] ma
                            else KernelPrintf (''Reason: Unknown'' @ crlflf) [] ma);
                      (faultAdd, mc) = (if cfsr AND SCB_CFSR_BFARVALID \<noteq> 0
                                          then load BFAR mb
                                        else (faultAdd0, mb))
                  in (hfsr0, faultAdd, mc))
             | Hard_Fault \<Rightarrow>
                 (let ma = KernelPrintf (''Type: Hard Fault'' @ crlf) [] m2;
                      mb = KernelPrintf (''Reason: Unknown'' @ crlflf) [] ma;
                      (hfsr, mc) = load HFSR mb
                  in (hfsr, faultAdd0, mc))
             | MemMang_Fault \<Rightarrow>
                 (let ma = KernelPrintf (''Type: Memory Fault'' @ crlf) [] m2;
                      mb = (if cfsr AND SCB_CFSR_IACCVIOL \<noteq> 0
                              then KernelPrintf (''Reason: Invalid code address'' @ crlflf) [] ma
                            else if cfsr AND SCB_CFSR_DACCVIOL \<noteq> 0
                              then KernelPrintf (''Reason: Invalid data address'' @ crlflf) [] ma
                            else if cfsr AND (SCB_CFSR_MSTKERR OR SCB_CFSR_MUNSTKERR) \<noteq> 0
                              then KernelPrintf (''Reason: Exception stack fault'' @ crlflf) [] ma
                            else if cfsr AND SCB_CFSR_LSPERR \<noteq> 0
                              then KernelPrintf (''Reason: Floating point fault'' @ crlflf) [] ma
                            else KernelPrintf (''Reason: Unknown'' @ crlflf) [] ma);
                      (faultAdd, mc) = (if cfsr AND SCB_CFSR_MMARVALID \<noteq> 0
                                          then load MMFAR mb
                                        else (faultAdd0, mb))
                  in (hfsr0, faultAdd, mc)));
          m4 = KernelPrintf (''R0=%x R1=%x'' @ crlf) [m_R0 aFrame, m_R1 aFrame] m3;
          m5 = KernelPrintf (''R2=%x R3=%x'' @ crlf) [m_R2 aFrame, m_R3 aFrame] m4;
          m6 = KernelPrintf (''R12=%x LR=%x'' @ crlf) [m_R12 aFrame, m_LR aFrame] m5;
          m7 = KernelPrintf (''PC=%x PSR=%x'' @ crlf) [m_PC aFrame, m_PSR aFrame] m6;
          m8 = KernelPrintf (''HFSR=%x CFSR=%x'' @ crlf) [hfsr, cfsr] m7
      in KernelPrintf (''Fault address=%x'' @ crlf) [faultAdd] m8)"

section \<open>The low-level handlers\<close>

text \<open>The four naked functions are straight-line Thumb-2 assembly. The model keeps the
  instructions they use and the part of the processor state those instructions touch:
  the core registers r0, r1 and lr, the two banked stack pointers, the mask registers
  PRIMASK and FAULTMASK, the N and Z flags and the program counter.

  \<^item> \<^verbatim>\<open>tst\<close> sets N and Z from the conjunction of a register and an immediate.
  \<^item> \<^verbatim>\<open>ite\<close> opens an if-then-else block; the two instructions after it carry
    the conditions themselves, so the model gives it no effect of its own.
  \<^item> \<^verbatim>\<open>mrs<c>\<close> copies a stack pointer to a register when its condition holds.
  \<^item> \<^verbatim>\<open>msr\<close> writes bit 0 of a register to a mask register. A handler runs
    privileged, so the write to PRIMASK always happens; the architecture performs the
    write to FAULTMASK only while the execution priority is above -1.
  \<^item> \<^verbatim>\<open>ldr r, =sym\<close> loads the address of a symbol; the addresses are given by
    the linker and are a parameter here.
  \<^item> \<^verbatim>\<open>bx\<close> branches to the address held in a register and ends the stub.\<close>

datatype core_register = R0 | R1 | LR

datatype stack_pointer = MSP | PSP

datatype mask_register = PRIMASK | FAULTMASK

datatype condition = EQ | NE

datatype symbol = hardFault | memMangFault | busFault | usageFault

datatype instruction =
    TST core_register uint32_t
  | ITE condition
  | MRS condition core_register stack_pointer
  | MOV core_register uint32_t
  | MSR mask_register core_register
  | LDR core_register symbol
  | BX core_register

record cpu =
  regs :: "core_register \<Rightarrow> uint32_t"
  msp :: uint32_t
  psp :: uint32_t
  primask :: bool
  faultmask :: bool
  flag_n :: bool
  flag_z :: bool
  exec_priority :: int
  pc :: uint32_t

fun holds :: "condition \<Rightarrow> cpu \<Rightarrow> bool" where
  "holds EQ s = flag_z s"
| "holds NE s = (\<not> flag_z s)"

fun read_sp :: "stack_pointer \<Rightarrow> cpu \<Rightarrow> uint32_t" where
  "read_sp MSP s = msp s"
| "read_sp PSP s = psp s"

fun step :: "(symbol \<Rightarrow> uint32_t) \<Rightarrow> instruction \<Rightarrow> cpu \<Rightarrow> cpu" where
  "step a (TST r imm) s =
     s\<lparr>flag_n := bit (regs s r AND imm) 31, flag_z := (regs s r AND imm = 0)\<rparr>"
| "step a (ITE c) s = s"
| "step a (MRS c r sp) s =
     (if holds c s then s\<lparr>regs := (regs s)(r := read_sp sp s)\<rparr> else s)"
| "step a (MOV r imm) s = s\<lparr>regs := (regs s)(r := imm)\<rparr>"
| "step a (MSR PRIMASK r) s = s\<lparr>primask := bit (regs s r) 0\<rparr>"
| "step a (MSR FAULTMASK r) s =
     (if exec_priority s > - 1 then s\<lparr>faultmask := bit (regs s r) 0\<rparr> else s)"
| "step a (LDR r f) s = s\<lparr>regs := (regs s)(r := a f)\<rparr>"
| "step a (BX r) s = s\<lparr>pc := regs s r\<rparr>"

fun exec :: "(symbol \<Rightarrow> uint32_t) \<Rightarrow> instruction list \<Rightarrow> cpu \<Rightarrow> cpu" where
  "exec a [] s = s"
| "exec a (BX r # rest) s = step a (BX r) s"
| "exec a (i # rest) s = exec a rest (step a i s)"

definition HardFault_Handler :: "instruction list" where
  "HardFault_Handler =
     [TST LR 4, ITE EQ, MRS EQ R0 MSP, MRS NE R0 PSP,
      MOV R1 0, MSR PRIMASK R1, MSR FAULTMASK R1,
      LDR R1 hardFault, BX R1]"

definition MemManage_Handler :: "instruction list" where
  "MemManage_Handler =
     [TST LR 4, ITE EQ, MRS EQ R0 MSP, MRS NE R0 PSP,
      MOV R1 0, MSR PRIMASK R1, MSR FAULTMASK R1,
      LDR R1 memMangFault, BX R1]"

definition BusFault_Handler :: "instruction list" where
  "BusFault_Handler =
     [TST LR 4, ITE EQ, MRS EQ R0 MSP, MRS NE R0 PSP,
      MOV R1 0, MSR PRIMASK R1, MSR FAULTMASK R1,
      LDR R1 busFault, BX R1]"

definition UsageFault_Handler :: "instruction list" where
  "UsageFault_Handler =
     [TST LR 4, ITE EQ, MRS EQ R0 MSP, MRS NE R0 PSP,
      MOV R1 0, MSR PRIMASK R1, MSR FAULTMASK R1,
      LDR R1 usageFault, BX R1]"

section \<open>What a call leaves behind\<close>

text \<open>The calls a function added to the sink, and the bus accesses it added, are what is
  left of the later state once the earlier one's entries are dropped. A "Reason:" line is a
  call whose format string begins with that word; the values printed under a format are
  the argument lists of the calls that use it.\<close>

definition emitted :: "machine \<Rightarrow> machine \<Rightarrow> print_call list" where
  "emitted m m' = drop (length (sink m)) (sink m')"

definition accessed :: "machine \<Rightarrow> machine \<Rightarrow> bus_access list" where
  "accessed m m' = drop (length (bus m)) (bus m')"

definition reason_lines :: "print_call list \<Rightarrow> string list" where
  "reason_lines out = filter (\<lambda>fmt. take 7 fmt = ''Reason:'') (map fst out)"

definition printed_with :: "string \<Rightarrow> print_call list \<Rightarrow> uint32_t list list" where
  "printed_with fmt out = map snd (filter (\<lambda>c. fst c = fmt) out)"

section \<open>Concrete inputs\<close>

text \<open>A machine with chosen fault registers and nothing yet on the bus or the sink, a
  stacked frame, a processor state at exception entry with a chosen EXC_RETURN value in
  lr and a chosen execution priority, a symbol table, the enable masks as the Cortex-M4
  core header numbers them, and a machine just out of reset (CCR reads 0x200).\<close>

definition machine_with :: "uint32_t \<Rightarrow> uint32_t \<Rightarrow> uint32_t \<Rightarrow> uint32_t \<Rightarrow> machine" where
  "machine_with cfsr hfsr mmfar bfar =
     \<lparr>scb = (\<lambda>_. 0)(CFSR := cfsr, HFSR := hfsr, MMFAR := mmfar, BFAR := bfar),
      bus = [], sink = []\<rparr>"

definition sample_frame :: CortexExceptionCpuFrameType where
  "sample_frame = \<lparr>m_R0 = 1, m_R1 = 0, m_R2 = 2, m_R3 = 3, m_R12 = 12,
     m_LR = 0x08000123, m_PC = 0x08000456, m_PSR = 0x21000000\<rparr>"

definition entry_state :: "uint32_t \<Rightarrow> int \<Rightarrow> cpu" where
  "entry_state exc_return prio =
     \<lparr>regs = (\<lambda>_. 0)(LR := exc_return), msp = 0x20001000, psp = 0x20000800,
      primask = False, faultmask = False, flag_n = False, flag_z = False,
      exec_priority = prio, pc = 0x08000100\<rparr>"

fun sample_symbols :: "symbol \<Rightarrow> uint32_t" where
  "sample_symbols hardFault = 0x08000201"
| "sample_symbols memMangFault = 0x08000211"
| "sample_symbols busFault = 0x08000221"
| "sample_symbols usageFault = 0x08000231"

definition sample_masks :: scb_masks where
  "sample_masks = \<lparr>SCB_CCR_UNALIGN_TRP_Msk = 0x8, SCB_CCR_DIV_0_TRP_Msk = 0x10,
     SCB_SHCSR_USGFAULTENA_Msk = 0x40000, SCB_SHCSR_BUSFAULTENA_Msk = 0x20000,
     SCB_SHCSR_MEMFAULTENA_Msk = 0x10000\<rparr>"

definition reset_machine :: machine where
  "reset_machine = \<lparr>scb = (\<lambda>_. 0)(CCR := 0x200), bus = [], sink = []\<rparr>"

section \<open>Bit tests\<close>

lemma test_mask: "(w AND push_bit n 1 \<noteq> 0) = bit w n" for w :: uint32_t
  by (simp add: and_exp_eq_0_iff_not_bit)

lemma test_either: "(w AND (a OR b) \<noteq> 0) = (w AND a \<noteq> 0 \<or> w AND b \<noteq> 0)"
  for w :: uint32_t
  by (simp add: word_ao_dist2 or_eq_0_iff)

lemma test_bit2: "(w AND 4 = 0) = (\<not> bit w 2)" for w :: uint32_t
  using and_exp_eq_0_iff_not_bit [of w 2] by simp

lemma cfsr_tests:
  fixes w :: uint32_t
  shows "(w AND SCB_CFSR_DIVBYZERO \<noteq> 0) = bit w 25"
    and "(w AND SCB_CFSR_UNALIGNED \<noteq> 0) = bit w 24"
    and "(w AND SCB_CFSR_UNDEFINSTR \<noteq> 0) = bit w 16"
    and "(w AND SCB_CFSR_BFARVALID \<noteq> 0) = bit w 15"
    and "(w AND SCB_CFSR_LSPERR \<noteq> 0) = bit w 13"
    and "(w AND SCB_CFSR_STKERR \<noteq> 0) = bit w 12"
    and "(w AND SCB_CFSR_UNSTKERR \<noteq> 0) = bit w 11"
    and "(w AND SCB_CFSR_IMPRECISERR \<noteq> 0) = bit w 10"
    and "(w AND SCB_CFSR_PRECISERR \<noteq> 0) = bit w 9"
    and "(w AND SCB_CFSR_IBUSERR \<noteq> 0) = bit w 8"
    and "(w AND SCB_CFSR_MMARVALID \<noteq> 0) = bit w 7"
    and "(w AND SCB_CFSR_MLSPERR \<noteq> 0) = bit w 5"
    and "(w AND SCB_CFSR_MSTKERR \<noteq> 0) = bit w 4"
    and "(w AND SCB_CFSR_MUNSTKERR \<noteq> 0) = bit w 3"
    and "(w AND SCB_CFSR_DACCVIOL \<noteq> 0) = bit w 1"
    and "(w AND SCB_CFSR_IACCVIOL \<noteq> 0) = bit w 0"
  unfolding SCB_CFSR_DIVBYZERO_def SCB_CFSR_UNALIGNED_def SCB_CFSR_UNDEFINSTR_def
    SCB_CFSR_BFARVALID_def SCB_CFSR_LSPERR_def SCB_CFSR_STKERR_def SCB_CFSR_UNSTKERR_def
    SCB_CFSR_IMPRECISERR_def SCB_CFSR_PRECISERR_def SCB_CFSR_IBUSERR_def
    SCB_CFSR_MMARVALID_def SCB_CFSR_MLSPERR_def SCB_CFSR_MSTKERR_def SCB_CFSR_MUNSTKERR_def
    SCB_CFSR_DACCVIOL_def SCB_CFSR_IACCVIOL_def
  by (rule test_mask)+

lemma or_keeps: "(x OR y) AND x = x" for x :: uint32_t
  by (rule bit_word_eqI) (auto simp: bit_simps)

lemma or_covers: "(x OR y) AND y = y" for x :: uint32_t
  by (rule bit_word_eqI) (auto simp: bit_simps)

lemma or_outside: "(x OR y) AND NOT y = x AND NOT y" for x :: uint32_t
  by (rule bit_word_eqI) (auto simp: bit_simps)

lemma or_twice: "(x OR y) OR y = x OR y" for x :: uint32_t
  by (rule bit_word_eqI) (auto simp: bit_simps)

section \<open>The whole report, kind by kind\<close>

lemmas machine_ops = load_def KernelPrintf_def Let_def

lemma sink_Usage_Fault:
  "sink (printExtraInfo f Usage_Fault m) = sink m @
     [(''**** EXCEPTION OCCURRED ****'' @ crlf, []),
      (''Type: Usage Fault'' @ crlf, []),
      (if bit (scb m CFSR) 25 then ''Reason: Division by zero'' @ crlflf
       else if bit (scb m CFSR) 24 then ''Reason: Misaligned data access'' @ crlflf
       else if bit (scb m CFSR) 16 then ''Reason: Undefined instruction'' @ crlflf
       else ''Reason: Unknown'' @ crlflf, []),
      (''R0=%x R1=%x'' @ crlf, [m_R0 f, m_R1 f]),
      (''R2=%x R3=%x'' @ crlf, [m_R2 f, m_R3 f]),
      (''R12=%x LR=%x'' @ crlf, [m_R12 f, m_LR f]),
      (''PC=%x PSR=%x'' @ crlf, [m_PC f, m_PSR f]),
      (''HFSR=%x CFSR=%x'' @ crlf, [EXCEPTION_HANDLER_FIELD_IS_INVALID, scb m CFSR]),
      (''Fault address=%x'' @ crlf, [EXCEPTION_HANDLER_FIELD_IS_INVALID])]"
  by (simp add: printExtraInfo_def machine_ops cfsr_tests)

lemma bus_Usage_Fault:
  "bus (printExtraInfo f Usage_Fault m) = bus m @ [Load CFSR]"
  by (simp add: printExtraInfo_def machine_ops)

lemma sink_Bus_Fault:
  "sink (printExtraInfo f Bus_Fault m) = sink m @
     [(''**** EXCEPTION OCCURRED ****'' @ crlf, []),
      (''Type: Bus Fault'' @ crlf, []),
      (if bit (scb m CFSR) 8 then ''Reason: Invalid code address'' @ crlflf
       else if bit (scb m CFSR) 9 \<or> bit (scb m CFSR) 10
         then ''Reason: Invalid data address'' @ crlflf
       else if bit (scb m CFSR) 12 \<or> bit (scb m CFSR) 11
         then ''Reason: Exception stack fault'' @ crlflf
       else if bit (scb m CFSR) 13 then ''Reason: Floating point fault'' @ crlflf
       else ''Reason: Unknown'' @ crlflf, []),
      (''R0=%x R1=%x'' @ crlf, [m_R0 f, m_R1 f]),
      (''R2=%x R3=%x'' @ crlf, [m_R2 f, m_R3 f]),
      (''R12=%x LR=%x'' @ crlf, [m_R12 f, m_LR f]),
      (''PC=%x PSR=%x'' @ crlf, [m_PC f, m_PSR f]),
      (''HFSR=%x CFSR=%x'' @ crlf, [EXCEPTION_HANDLER_FIELD_IS_INVALID, scb m CFSR]),
      (''Fault address=%x'' @ crlf,
         [if bit (scb m CFSR) 15 then scb m BFAR else EXCEPTION_HANDLER_FIELD_IS_INVALID])]"
  by (simp add: printExtraInfo_def machine_ops test_either cfsr_tests)

lemma bus_Bus_Fault:
  "bus (printExtraInfo f Bus_Fault m) =
     bus m @ Load CFSR # (if bit (scb m CFSR) 15 then [Load BFAR] else [])"
  by (simp add: printExtraInfo_def machine_ops test_either cfsr_tests)

lemma sink_Hard_Fault:
  "sink (printExtraInfo f Hard_Fault m) = sink m @
     [(''**** EXCEPTION OCCURRED ****'' @ crlf, []),
      (''Type: Hard Fault'' @ crlf, []),
      (''Reason: Unknown'' @ crlflf, []),
      (''R0=%x R1=%x'' @ crlf, [m_R0 f, m_R1 f]),
      (''R2=%x R3=%x'' @ crlf, [m_R2 f, m_R3 f]),
      (''R12=%x LR=%x'' @ crlf, [m_R12 f, m_LR f]),
      (''PC=%x PSR=%x'' @ crlf, [m_PC f, m_PSR f]),
      (''HFSR=%x CFSR=%x'' @ crlf, [scb m HFSR, scb m CFSR]),
      (''Fault address=%x'' @ crlf, [EXCEPTION_HANDLER_FIELD_IS_INVALID])]"
  by (simp add: printExtraInfo_def machine_ops)

lemma bus_Hard_Fault:
  "bus (printExtraInfo f Hard_Fault m) = bus m @ [Load CFSR, Load HFSR]"
  by (simp add: printExtraInfo_def machine_ops)

text \<open>In the memory-management branch the fourth test reads \<^verbatim>\<open>SCB_CFSR_LSPERR\<close>,
  which is bit 13.\<close>

lemma sink_MemMang_Fault:
  "sink (printExtraInfo f MemMang_Fault m) = sink m @
     [(''**** EXCEPTION OCCURRED ****'' @ crlf, []),
      (''Type: Memory Fault'' @ crlf, []),
      (if bit (scb m CFSR) 0 then ''Reason: Invalid code address'' @ crlflf
       else if bit (scb m CFSR) 1 then ''Reason: Invalid data address'' @ crlflf
       else if bit (scb m CFSR) 4 \<or> bit (scb m CFSR) 3
         then ''Reason: Exception stack fault'' @ crlflf
       else if bit (scb m CFSR) 13 then ''Reason: Floating point fault'' @ crlflf
       else ''Reason: Unknown'' @ crlflf, []),
      (''R0=%x R1=%x'' @ crlf, [m_R0 f, m_R1 f]),
      (''R2=%x R3=%x'' @ crlf, [m_R2 f, m_R3 f]),
      (''R12=%x LR=%x'' @ crlf, [m_R12 f, m_LR f]),
      (''PC=%x PSR=%x'' @ crlf, [m_PC f, m_PSR f]),
      (''HFSR=%x CFSR=%x'' @ crlf, [EXCEPTION_HANDLER_FIELD_IS_INVALID, scb m CFSR]),
      (''Fault address=%x'' @ crlf,
         [if bit (scb m CFSR) 7 then scb m MMFAR else EXCEPTION_HANDLER_FIELD_IS_INVALID])]"
  by (simp add: printExtraInfo_def machine_ops test_either cfsr_tests)

lemma bus_MemMang_Fault:
  "bus (printExtraInfo f MemMang_Fault m) =
     bus m @ Load CFSR # (if bit (scb m CFSR) 7 then [Load MMFAR] else [])"
  by (simp add: printExtraInfo_def machine_ops test_either cfsr_tests)

lemma bus_printExtraInfo:
  "accessed m (printExtraInfo f eType m) =
     Load CFSR #
     (case eType of
        Hard_Fault \<Rightarrow> [Load HFSR]
      | MemMang_Fault \<Rightarrow> if bit (scb m CFSR) 7 then [Load MMFAR] else []
      | Bus_Fault \<Rightarrow> if bit (scb m CFSR) 15 then [Load BFAR] else []
      | Usage_Fault \<Rightarrow> [])"
  by (cases eType)
    (simp_all add: accessed_def bus_Hard_Fault bus_MemMang_Fault bus_Bus_Fault bus_Usage_Fault)

section \<open>The registers after exceptionsInit\<close>

lemmas init_ops = exceptionsInit_def TRAP_DIVIDE_BY_ZERO_ONLY_def or_assign_def load_def
  store_def Let_def

lemma scb_exceptionsInit:
  "scb (exceptionsInit k m) = (scb m)
     (CCR := scb m CCR OR SCB_CCR_DIV_0_TRP_Msk k,
      SHCSR := scb m SHCSR OR (SCB_SHCSR_USGFAULTENA_Msk k OR SCB_SHCSR_BUSFAULTENA_Msk k
                 OR SCB_SHCSR_MEMFAULTENA_Msk k))"
  by (simp add: init_ops)

section \<open>The mask registers after a low-level handler\<close>

lemmas trampolines =
  HardFault_Handler_def MemManage_Handler_def BusFault_Handler_def UsageFault_Handler_def

text \<open>Whatever the state at entry, each stub leaves PRIMASK clear, and FAULTMASK is set
  afterwards only if it was set before and the write to it was not performed.\<close>

lemma trampoline_masks:
  "primask (exec a HardFault_Handler s) = False"
  "primask (exec a MemManage_Handler s) = False"
  "primask (exec a BusFault_Handler s) = False"
  "primask (exec a UsageFault_Handler s) = False"
  "faultmask (exec a HardFault_Handler s) = (faultmask s \<and> \<not> exec_priority s > - 1)"
  "faultmask (exec a MemManage_Handler s) = (faultmask s \<and> \<not> exec_priority s > - 1)"
  "faultmask (exec a BusFault_Handler s) = (faultmask s \<and> \<not> exec_priority s > - 1)"
  "faultmask (exec a UsageFault_Handler s) = (faultmask s \<and> \<not> exec_priority s > - 1)"
  by (simp_all add: trampolines)

section \<open>The low-level handlers: masking and stack-pointer selection\<close>

text \<open>Claim C1. The claim asks that every low-level handler hands over a state with
  PRIMASK and FAULTMASK set, and the comments in the source say the same ("Disable all
  interrupts... and subsequent faults"). The code moves 0 into r1 and writes that to both
  mask registers, which clears them. Evaluated at an entry state with both masks clear,
  EXC_RETURN 0xFFFFFFF9 in lr, and execution priority -1 for the hard fault and 0 for the
  other three: after each of the four handlers both PRIMASK and FAULTMASK are clear.\<close>

theorem trampolines_leave_masks_clear:
  "\<not> primask (exec sample_symbols HardFault_Handler (entry_state 0xFFFFFFF9 (- 1)))
   \<and> \<not> faultmask (exec sample_symbols HardFault_Handler (entry_state 0xFFFFFFF9 (- 1)))
   \<and> \<not> primask (exec sample_symbols MemManage_Handler (entry_state 0xFFFFFFF9 0))
   \<and> \<not> faultmask (exec sample_symbols MemManage_Handler (entry_state 0xFFFFFFF9 0))
   \<and> \<not> primask (exec sample_symbols BusFault_Handler (entry_state 0xFFFFFFF9 0))
   \<and> \<not> faultmask (exec sample_symbols BusFault_Handler (entry_state 0xFFFFFFF9 0))
   \<and> \<not> primask (exec sample_symbols UsageFault_Handler (entry_state 0xFFFFFFF9 0))
   \<and> \<not> faultmask (exec sample_symbols UsageFault_Handler (entry_state 0xFFFFFFF9 0))"
  by (simp add: trampolines entry_state_def)

text \<open>Claim C4. For each of the four low-level handlers, whatever the fault kind: the value
  in r0 when control reaches the C handler is the main stack pointer if bit 2 of lr is 0
  and the process stack pointer if bit 2 of lr is 1, and the branch goes to that kind's C
  handler.\<close>

theorem trampoline_selects_stack_pointer:
  "regs (exec a HardFault_Handler s) R0 = (if bit (regs s LR) 2 then psp s else msp s)
   \<and> pc (exec a HardFault_Handler s) = a hardFault
   \<and> regs (exec a MemManage_Handler s) R0 = (if bit (regs s LR) 2 then psp s else msp s)
   \<and> pc (exec a MemManage_Handler s) = a memMangFault
   \<and> regs (exec a BusFault_Handler s) R0 = (if bit (regs s LR) 2 then psp s else msp s)
   \<and> pc (exec a BusFault_Handler s) = a busFault
   \<and> regs (exec a UsageFault_Handler s) R0 = (if bit (regs s LR) 2 then psp s else msp s)
   \<and> pc (exec a UsageFault_Handler s) = a usageFault"
  by (simp add: trampolines test_bit2)

theorem trampoline_selects_stack_pointer_witness:
  "regs (exec sample_symbols HardFault_Handler (entry_state 0xFFFFFFF9 (- 1))) R0 = 0x20001000
   \<and> regs (exec sample_symbols BusFault_Handler (entry_state 0xFFFFFFFD 0)) R0 = 0x20000800
   \<and> pc (exec sample_symbols BusFault_Handler (entry_state 0xFFFFFFFD 0)) = 0x08000221"
  using trampoline_selects_stack_pointer [of sample_symbols "entry_state 0xFFFFFFF9 (- 1)"]
    trampoline_selects_stack_pointer [of sample_symbols "entry_state 0xFFFFFFFD 0"]
  by (simp add: entry_state_def)

section \<open>printExtraInfo: the reason line\<close>

text \<open>Claim C2. The claim asks that the fourth rule of the memory-management decode tests
  MLSPERR, bit 5 of CFSR. The source defines \<^verbatim>\<open>SCB_CFSR_MLSPERR\<close> for that bit and
  never uses it: the branch tests \<^verbatim>\<open>SCB_CFSR_LSPERR\<close>, the bus-fault bit 13.
  Evaluated at CFSR = 0x20 (bit 5 alone) the one reason line is "Unknown", and at
  CFSR = 0x2000 (bit 13 alone, no memory-management bit) it is "Floating point fault".\<close>

theorem memmang_lazy_state_bit_ignored:
  "reason_lines (emitted (machine_with 0x20 0 0 0)
       (printExtraInfo sample_frame MemMang_Fault (machine_with 0x20 0 0 0)))
     = [''Reason: Unknown'' @ crlflf]
   \<and> reason_lines (emitted (machine_with 0x2000 0 0 0)
       (printExtraInfo sample_frame MemMang_Fault (machine_with 0x2000 0 0 0)))
     = [''Reason: Floating point fault'' @ crlflf]
   \<and> bit (0x20 :: uint32_t) 5 \<and> \<not> bit (0x2000 :: uint32_t) 5"
  by (simp add: emitted_def sink_MemMang_Fault reason_lines_def crlf_def machine_with_def)

text \<open>Claim C5. For every CFSR value, a usage-fault report has exactly one "Reason:" line,
  chosen by the first rule that matches: division by zero (bit 25), then misaligned access
  (bit 24), then undefined instruction (bit 16), then "Unknown". With bits 25 and 24 both
  set the reason is "Division by zero".\<close>

theorem usage_fault_reason:
  "reason_lines (emitted m (printExtraInfo aFrame Usage_Fault m)) =
     [if bit (scb m CFSR) 25 then ''Reason: Division by zero'' @ crlflf
      else if bit (scb m CFSR) 24 then ''Reason: Misaligned data access'' @ crlflf
      else if bit (scb m CFSR) 16 then ''Reason: Undefined instruction'' @ crlflf
      else ''Reason: Unknown'' @ crlflf]"
  by (simp add: emitted_def sink_Usage_Fault reason_lines_def crlf_def)

theorem usage_fault_reason_witness:
  "reason_lines (emitted (machine_with 0x03000000 0 0 0)
       (printExtraInfo sample_frame Usage_Fault (machine_with 0x03000000 0 0 0)))
     = [''Reason: Division by zero'' @ crlflf]"
  using usage_fault_reason [of "machine_with 0x03000000 0 0 0" sample_frame]
  by (simp add: machine_with_def)

text \<open>Claim C6. For every CFSR value, a bus-fault report has exactly one "Reason:" line,
  chosen by the first rule that matches: instruction bus error (bit 8), then precise or
  imprecise data bus error (bit 9 or bit 10), then stacking or unstacking error (bit 12 or
  bit 11), then the lazy floating-point state error (bit 13), then "Unknown".\<close>

theorem bus_fault_reason:
  "reason_lines (emitted m (printExtraInfo aFrame Bus_Fault m)) =
     [if bit (scb m CFSR) 8 then ''Reason: Invalid code address'' @ crlflf
      else if bit (scb m CFSR) 9 \<or> bit (scb m CFSR) 10
        then ''Reason: Invalid data address'' @ crlflf
      else if bit (scb m CFSR) 12 \<or> bit (scb m CFSR) 11
        then ''Reason: Exception stack fault'' @ crlflf
      else if bit (scb m CFSR) 13 then ''Reason: Floating point fault'' @ crlflf
      else ''Reason: Unknown'' @ crlflf]"
  by (simp add: emitted_def sink_Bus_Fault reason_lines_def crlf_def)

theorem bus_fault_reason_witness:
  "reason_lines (emitted (machine_with 0x3400 0 0 0)
       (printExtraInfo sample_frame Bus_Fault (machine_with 0x3400 0 0 0)))
     = [''Reason: Invalid data address'' @ crlflf]"
  using bus_fault_reason [of "machine_with 0x3400 0 0 0" sample_frame]
  by (simp add: machine_with_def)

text \<open>Claim C7. For every CFSR and HFSR value, a hard-fault report decodes nothing: its one
  "Reason:" line is "Unknown", HFSR is read once, and the register dump prints the value
  read, unchanged, next to CFSR.\<close>

theorem hard_fault_report:
  "reason_lines (emitted m (printExtraInfo aFrame Hard_Fault m)) = [''Reason: Unknown'' @ crlflf]
   \<and> printed_with (''HFSR=%x CFSR=%x'' @ crlf) (emitted m (printExtraInfo aFrame Hard_Fault m))
       = [[scb m HFSR, scb m CFSR]]
   \<and> accessed m (printExtraInfo aFrame Hard_Fault m) = [Load CFSR, Load HFSR]"
  by (simp add: emitted_def accessed_def sink_Hard_Fault bus_Hard_Fault reason_lines_def
      printed_with_def crlf_def)

theorem hard_fault_report_witness:
  "reason_lines (emitted (machine_with 0x02000000 0x40000000 0 0)
       (printExtraInfo sample_frame Hard_Fault (machine_with 0x02000000 0x40000000 0 0)))
     = [''Reason: Unknown'' @ crlflf]
   \<and> printed_with (''HFSR=%x CFSR=%x'' @ crlf)
        (emitted (machine_with 0x02000000 0x40000000 0 0)
          (printExtraInfo sample_frame Hard_Fault (machine_with 0x02000000 0x40000000 0 0)))
       = [[0x40000000, 0x02000000]]"
  using hard_fault_report [of "machine_with 0x02000000 0x40000000 0 0" sample_frame]
  by (simp add: machine_with_def)

section \<open>printExtraInfo: the fault address and the invalid-field marker\<close>

text \<open>Claim C3. In a bus-fault report the value printed as the fault address is the content
  of BFAR when bit 15 of CFSR (BFARVALID) is set and the marker 0xDEADD0D0 when it is
  clear, and BFAR is read exactly when that bit is set. The same holds in a
  memory-management report for MMFAR and bit 7 (MMARVALID).\<close>

theorem fault_address_reporting:
  "printed_with (''Fault address=%x'' @ crlf) (emitted m (printExtraInfo aFrame Bus_Fault m))
     = [[if bit (scb m CFSR) 15 then scb m BFAR else EXCEPTION_HANDLER_FIELD_IS_INVALID]]
   \<and> (Load BFAR \<in> set (accessed m (printExtraInfo aFrame Bus_Fault m))) = bit (scb m CFSR) 15
   \<and> printed_with (''Fault address=%x'' @ crlf)
        (emitted m (printExtraInfo aFrame MemMang_Fault m))
     = [[if bit (scb m CFSR) 7 then scb m MMFAR else EXCEPTION_HANDLER_FIELD_IS_INVALID]]
   \<and> (Load MMFAR \<in> set (accessed m (printExtraInfo aFrame MemMang_Fault m)))
       = bit (scb m CFSR) 7
   \<and> EXCEPTION_HANDLER_FIELD_IS_INVALID = 0xDEADD0D0"
  by (simp add: emitted_def accessed_def sink_Bus_Fault bus_Bus_Fault sink_MemMang_Fault
      bus_MemMang_Fault printed_with_def crlf_def EXCEPTION_HANDLER_FIELD_IS_INVALID_def)

theorem fault_address_reporting_witness:
  "printed_with (''Fault address=%x'' @ crlf)
      (emitted (machine_with 0x8200 0 0x11111111 0xCCCCCCCC)
        (printExtraInfo sample_frame Bus_Fault (machine_with 0x8200 0 0x11111111 0xCCCCCCCC)))
     = [[0xCCCCCCCC]]
   \<and> printed_with (''Fault address=%x'' @ crlf)
      (emitted (machine_with 0x0200 0 0x11111111 0xCCCCCCCC)
        (printExtraInfo sample_frame Bus_Fault (machine_with 0x0200 0 0x11111111 0xCCCCCCCC)))
     = [[0xDEADD0D0]]
   \<and> printed_with (''Fault address=%x'' @ crlf)
      (emitted (machine_with 0x82 0 0x11111111 0xCCCCCCCC)
        (printExtraInfo sample_frame MemMang_Fault (machine_with 0x82 0 0x11111111 0xCCCCCCCC)))
     = [[0x11111111]]
   \<and> printed_with (''Fault address=%x'' @ crlf)
      (emitted (machine_with 0x02 0 0x11111111 0xCCCCCCCC)
        (printExtraInfo sample_frame MemMang_Fault (machine_with 0x02 0 0x11111111 0xCCCCCCCC)))
     = [[0xDEADD0D0]]"
  using fault_address_reporting [of "machine_with 0x8200 0 0x11111111 0xCCCCCCCC" sample_frame]
    fault_address_reporting [of "machine_with 0x0200 0 0x11111111 0xCCCCCCCC" sample_frame]
    fault_address_reporting [of "machine_with 0x82 0 0x11111111 0xCCCCCCCC" sample_frame]
    fault_address_reporting [of "machine_with 0x02 0 0x11111111 0xCCCCCCCC" sample_frame]
  by (simp add: machine_with_def)

text \<open>Claim C9. HFSR is read only when the kind is Hard_Fault; for the other three kinds
  the value printed after "HFSR=" is the marker 0xDEADD0D0. For the kinds Hard_Fault and
  Usage_Fault the value printed as the fault address is that marker too: BFAR is read only
  in the bus-fault branch and MMFAR only in the memory-management branch.\<close>

theorem invalid_marker_fields:
  "(Load HFSR \<in> set (accessed m (printExtraInfo aFrame eType m))) = (eType = Hard_Fault)
   \<and> printed_with (''HFSR=%x CFSR=%x'' @ crlf)
        (emitted m (printExtraInfo aFrame MemMang_Fault m))
       = [[EXCEPTION_HANDLER_FIELD_IS_INVALID, scb m CFSR]]
   \<and> printed_with (''HFSR=%x CFSR=%x'' @ crlf)
        (emitted m (printExtraInfo aFrame Bus_Fault m))
       = [[EXCEPTION_HANDLER_FIELD_IS_INVALID, scb m CFSR]]
   \<and> printed_with (''HFSR=%x CFSR=%x'' @ crlf)
        (emitted m (printExtraInfo aFrame Usage_Fault m))
       = [[EXCEPTION_HANDLER_FIELD_IS_INVALID, scb m CFSR]]
   \<and> printed_with (''Fault address=%x'' @ crlf)
        (emitted m (printExtraInfo aFrame Hard_Fault m))
       = [[EXCEPTION_HANDLER_FIELD_IS_INVALID]]
   \<and> printed_with (''Fault address=%x'' @ crlf)
        (emitted m (printExtraInfo aFrame Usage_Fault m))
       = [[EXCEPTION_HANDLER_FIELD_IS_INVALID]]
   \<and> (Load BFAR \<in> set (accessed m (printExtraInfo aFrame eType m)))
       = (eType = Bus_Fault \<and> bit (scb m CFSR) 15)
   \<and> (Load MMFAR \<in> set (accessed m (printExtraInfo aFrame eType m)))
       = (eType = MemMang_Fault \<and> bit (scb m CFSR) 7)
   \<and> EXCEPTION_HANDLER_FIELD_IS_INVALID = 0xDEADD0D0"
proof -
  have "(Load HFSR \<in> set (accessed m (printExtraInfo aFrame eType m))) = (eType = Hard_Fault)"
    "(Load BFAR \<in> set (accessed m (printExtraInfo aFrame eType m)))
       = (eType = Bus_Fault \<and> bit (scb m CFSR) 15)"
    "(Load MMFAR \<in> set (accessed m (printExtraInfo aFrame eType m)))
       = (eType = MemMang_Fault \<and> bit (scb m CFSR) 7)"
    by (simp_all add: bus_printExtraInfo split: exceptionType.split)
  moreover have
    "printed_with (''HFSR=%x CFSR=%x'' @ crlf)
        (emitted m (printExtraInfo aFrame MemMang_Fault m))
       = [[EXCEPTION_HANDLER_FIELD_IS_INVALID, scb m CFSR]]"
    "printed_with (''HFSR=%x CFSR=%x'' @ crlf)
        (emitted m (printExtraInfo aFrame Bus_Fault m))
       = [[EXCEPTION_HANDLER_FIELD_IS_INVALID, scb m CFSR]]"
    "printed_with (''HFSR=%x CFSR=%x'' @ crlf)
        (emitted m (printExtraInfo aFrame Usage_Fault m))
       = [[EXCEPTION_HANDLER_FIELD_IS_INVALID, scb m CFSR]]"
    "printed_with (''Fault address=%x'' @ crlf)
        (emitted m (printExtraInfo aFrame Hard_Fault m))
       = [[EXCEPTION_HANDLER_FIELD_IS_INVALID]]"
    "printed_with (''Fault address=%x'' @ crlf)
        (emitted m (printExtraInfo aFrame Usage_Fault m))
       = [[EXCEPTION_HANDLER_FIELD_IS_INVALID]]"
    by (simp_all add: emitted_def sink_MemMang_Fault sink_Bus_Fault sink_Usage_Fault
        sink_Hard_Fault printed_with_def crlf_def)
  moreover have "EXCEPTION_HANDLER_FIELD_IS_INVALID = 0xDEADD0D0"
    by (simp add: EXCEPTION_HANDLER_FIELD_IS_INVALID_def)
  ultimately show ?thesis
    by (simp only: simp_thms)
qed

theorem invalid_marker_fields_witness:
  "printed_with (''HFSR=%x CFSR=%x'' @ crlf)
      (emitted (machine_with 0x02000000 0x40000000 0 0)
        (printExtraInfo sample_frame Usage_Fault (machine_with 0x02000000 0x40000000 0 0)))
     = [[0xDEADD0D0, 0x02000000]]
   \<and> printed_with (''Fault address=%x'' @ crlf)
      (emitted (machine_with 0x02000000 0x40000000 0 0)
        (printExtraInfo sample_frame Hard_Fault (machine_with 0x02000000 0x40000000 0 0)))
     = [[0xDEADD0D0]]"
  using invalid_marker_fields [of "machine_with 0x02000000 0x40000000 0 0" sample_frame Usage_Fault]
  by (simp add: machine_with_def)

section \<open>exceptionsInit: what it sets and what it leaves alone\<close>

text \<open>Claim C8. exceptionsInit always returns (it is a total function with no error
  value). One call leaves the divide-by-zero trap-enable mask set in CCR and the usage-,
  bus- and memory-management-fault enable masks set in SHCSR, and a second call from the
  resulting state leaves every register as the first call left it.\<close>

theorem exceptionsInit_idempotent:
  "scb (exceptionsInit k m) CCR AND SCB_CCR_DIV_0_TRP_Msk k = SCB_CCR_DIV_0_TRP_Msk k
   \<and> scb (exceptionsInit k m) SHCSR AND SCB_SHCSR_USGFAULTENA_Msk k = SCB_SHCSR_USGFAULTENA_Msk k
   \<and> scb (exceptionsInit k m) SHCSR AND SCB_SHCSR_BUSFAULTENA_Msk k = SCB_SHCSR_BUSFAULTENA_Msk k
   \<and> scb (exceptionsInit k m) SHCSR AND SCB_SHCSR_MEMFAULTENA_Msk k = SCB_SHCSR_MEMFAULTENA_Msk k
   \<and> scb (exceptionsInit k (exceptionsInit k m)) = scb (exceptionsInit k m)"
proof -
  let ?m = "exceptionsInit k m"
  have "scb ?m CCR AND SCB_CCR_DIV_0_TRP_Msk k = SCB_CCR_DIV_0_TRP_Msk k"
    by (simp add: scb_exceptionsInit or_covers)
  moreover have "scb ?m SHCSR AND SCB_SHCSR_USGFAULTENA_Msk k = SCB_SHCSR_USGFAULTENA_Msk k"
    "scb ?m SHCSR AND SCB_SHCSR_BUSFAULTENA_Msk k = SCB_SHCSR_BUSFAULTENA_Msk k"
    "scb ?m SHCSR AND SCB_SHCSR_MEMFAULTENA_Msk k = SCB_SHCSR_MEMFAULTENA_Msk k"
    by (simp_all add: scb_exceptionsInit) (rule bit_word_eqI; auto simp: bit_simps)+
  moreover have "scb (exceptionsInit k ?m) = scb ?m"
    by (simp add: scb_exceptionsInit or_twice)
  ultimately show ?thesis by simp
qed

theorem exceptionsInit_idempotent_witness:
  "scb (exceptionsInit sample_masks reset_machine) CCR AND 0x10 = 0x10
   \<and> scb (exceptionsInit sample_masks (exceptionsInit sample_masks reset_machine))
       = scb (exceptionsInit sample_masks reset_machine)"
  using exceptionsInit_idempotent [of sample_masks reset_machine]
  by (simp add: sample_masks_def)

text \<open>Claim C10. exceptionsInit only ORs the enable masks into CCR and SHCSR. For every
  prior state: CCR afterwards is the old CCR OR the divide-by-zero mask, SHCSR afterwards
  is the old SHCSR OR the three fault-enable masks; so every bit set before is still set,
  and every bit outside the masks is as it was. CFSR, HFSR, MMFAR and BFAR keep their
  contents, the only stores on the bus go to CCR and SHCSR, and nothing is printed.\<close>

theorem exceptionsInit_frame:
  "scb (exceptionsInit k m) CCR = scb m CCR OR SCB_CCR_DIV_0_TRP_Msk k
   \<and> scb (exceptionsInit k m) SHCSR = scb m SHCSR OR
        (SCB_SHCSR_USGFAULTENA_Msk k OR SCB_SHCSR_BUSFAULTENA_Msk k
           OR SCB_SHCSR_MEMFAULTENA_Msk k)
   \<and> scb (exceptionsInit k m) CCR AND scb m CCR = scb m CCR
   \<and> scb (exceptionsInit k m) SHCSR AND scb m SHCSR = scb m SHCSR
   \<and> scb (exceptionsInit k m) CCR AND NOT (SCB_CCR_DIV_0_TRP_Msk k)
       = scb m CCR AND NOT (SCB_CCR_DIV_0_TRP_Msk k)
   \<and> scb (exceptionsInit k m) SHCSR AND
         NOT (SCB_SHCSR_USGFAULTENA_Msk k OR SCB_SHCSR_BUSFAULTENA_Msk k
                OR SCB_SHCSR_MEMFAULTENA_Msk k)
       = scb m SHCSR AND
         NOT (SCB_SHCSR_USGFAULTENA_Msk k OR SCB_SHCSR_BUSFAULTENA_Msk k
                OR SCB_SHCSR_MEMFAULTENA_Msk k)
   \<and> scb (exceptionsInit k m) CFSR = scb m CFSR
   \<and> scb (exceptionsInit k m) HFSR = scb m HFSR
   \<and> scb (exceptionsInit k m) MMFAR = scb m MMFAR
   \<and> scb (exceptionsInit k m) BFAR = scb m BFAR
   \<and> accessed m (exceptionsInit k m) = [Load CCR, Store CCR, Load SHCSR, Store SHCSR]
   \<and> sink (exceptionsInit k m) = sink m"
proof -
  have "accessed m (exceptionsInit k m) = [Load CCR, Store CCR, Load SHCSR, Store SHCSR]"
    by (simp add: accessed_def init_ops)
  moreover have "sink (exceptionsInit k m) = sink m"
    by (simp add: init_ops)
  moreover have "scb (exceptionsInit k m) SHCSR AND
         NOT (SCB_SHCSR_USGFAULTENA_Msk k OR SCB_SHCSR_BUSFAULTENA_Msk k
                OR SCB_SHCSR_MEMFAULTENA_Msk k)
       = scb m SHCSR AND
         NOT (SCB_SHCSR_USGFAULTENA_Msk k OR SCB_SHCSR_BUSFAULTENA_Msk k
                OR SCB_SHCSR_MEMFAULTENA_Msk k)"
    unfolding scb_exceptionsInit by (simp only: fun_upd_same or_outside)
  moreover have "scb (exceptionsInit k m) CCR AND NOT (SCB_CCR_DIV_0_TRP_Msk k)
       = scb m CCR AND NOT (SCB_CCR_DIV_0_TRP_Msk k)"
    by (simp add: scb_exceptionsInit or_outside)
  moreover have "scb (exceptionsInit k m) CCR AND scb m CCR = scb m CCR"
    "scb (exceptionsInit k m) SHCSR AND scb m SHCSR = scb m SHCSR"
    by (simp_all add: scb_exceptionsInit or_keeps)
  moreover have "scb (exceptionsInit k m) CFSR = scb m CFSR"
    "scb (exceptionsInit k m) HFSR = scb m HFSR"
    "scb (exceptionsInit k m) MMFAR = scb m MMFAR"
    "scb (exceptionsInit k m) BFAR = scb m BFAR"
    "scb (exceptionsInit k m) CCR = scb m CCR OR SCB_CCR_DIV_0_TRP_Msk k"
    "scb (exceptionsInit k m) SHCSR = scb m SHCSR OR
        (SCB_SHCSR_USGFAULTENA_Msk k OR SCB_SHCSR_BUSFAULTENA_Msk k
           OR SCB_SHCSR_MEMFAULTENA_Msk k)"
    by (simp_all add: scb_exceptionsInit)
  ultimately show ?thesis
    by (simp only: simp_thms)
qed

theorem exceptionsInit_frame_witness:
  "scb (exceptionsInit sample_masks reset_machine) CCR = 0x210
   \<and> scb (exceptionsInit sample_masks reset_machine) SHCSR = 0x70000
   \<and> scb (exceptionsInit sample_masks reset_machine) CFSR = 0"
  using exceptionsInit_frame [of sample_masks reset_machine]
  by (simp add: sample_masks_def reset_machine_def)

end
